theory Spec2Isabelle
  imports Main "HOL-Library.Code_Target_Nat"
begin

section \<open>Data model of find-updates.py\<close>

text \<open>
  A record of a snapshot is a Python dict from field names to the scalar values the YAML
  loader produces: \<open>None\<close>, booleans, integers, text and calendar dates. A dict keeps
  its insertion order, so it is an association list; the key lookup \<open>k in item\<close> and
  \<open>item[k]\<close> is \<open>map_of\<close>. Text is a \<open>string\<close> read as the UTF-8 encoding of the
  Python \<open>str\<close>. Floats and nested lists or dicts, which a YAML document can also hold,
  are not part of this model: the records of a job list are flat, and a list or dict in the
  uniqueness field cannot be put into a set at all.
\<close>

datatype pyval = PyNone | PyBool bool | PyInt int | PyStr string | PyDate nat nat nat

type_synonym entry = "(string \<times> pyval) list"

type_synonym snapshot = "entry list"

text \<open>Python's \<open>==\<close> on these values: \<open>True == 1\<close> and \<open>False == 0\<close>, otherwise
  values of different types differ.\<close>

fun py_eq :: "pyval \<Rightarrow> pyval \<Rightarrow> bool" where
  "py_eq (PyBool a) (PyInt b) = ((if a then 1 else 0) = b)"
| "py_eq (PyInt a) (PyBool b) = (a = (if b then 1 else 0))"
| "py_eq a b = (a = b)"

text \<open>\<open>v in s\<close> and \<open>s.add(v)\<close> for the set \<open>previous\<close>, kept as the list of its
  members in insertion order.\<close>

primrec py_in :: "pyval \<Rightarrow> pyval list \<Rightarrow> bool" where
  "py_in v [] = False"
| "py_in v (x # xs) = (py_eq x v \<or> py_in v xs)"

definition set_add :: "pyval list \<Rightarrow> pyval \<Rightarrow> pyval list" where
  "set_add s v = (if py_in v s then s else s @ [v])"

text \<open>Truth value of a Python object in a condition.\<close>

fun truthy :: "pyval \<Rightarrow> bool" where
  "truthy PyNone = False"
| "truthy (PyBool b) = b"
| "truthy (PyInt i) = (i \<noteq> 0)"
| "truthy (PyStr s) = (s \<noteq> [])"
| "truthy (PyDate y m d) = True"

section \<open>The differ (lines 204 to 222 of main)\<close>

text \<open>The loop of lines 205 to 207: the uniqueness values of the original snapshot.\<close>

fun previous_values :: "snapshot \<Rightarrow> string \<Rightarrow> pyval list \<Rightarrow> pyval list" where
  "previous_values [] unique previous = previous"
| "previous_values (item # original) unique previous =
     (case map_of item unique of
        None \<Rightarrow> previous_values original unique previous
      | Some v \<Rightarrow> previous_values original unique (set_add previous v))"

text \<open>The loop of lines 212 to 218, with the two lists \<open>new\<close> and \<open>entries\<close> it appends to.\<close>

fun classify :: "snapshot \<Rightarrow> string \<Rightarrow> pyval list \<Rightarrow> entry list \<times> entry list
    \<Rightarrow> entry list \<times> entry list" where
  "classify [] unique previous (new, entries) = (new, entries)"
| "classify (item # updated) unique previous (new, entries) =
     (case map_of item unique of
        None \<Rightarrow> classify updated unique previous (new, entries)
      | Some v \<Rightarrow>
          if \<not> py_in v previous then classify updated unique previous (new @ [item], entries)
          else if truthy v then classify updated unique previous (new, entries @ [item])
          else classify updated unique previous (new, entries))"

text \<open>The value of the variable \<open>new\<close> after line 222: the Delta of the run.\<close>

definition delta :: "bool \<Rightarrow> string \<Rightarrow> snapshot \<Rightarrow> snapshot \<Rightarrow> entry list" where
  "delta test_mode unique original updated =
     (case classify updated unique (previous_values original unique []) ([], []) of
        (new, entries) \<Rightarrow> if test_mode then entries else new)"

section \<open>Text and JSON as the Python library renders them\<close>

text \<open>Decimal text of an integer, as \<open>%s\<close> formatting and \<open>json.dumps\<close> print it.\<close>

fun show_nat :: "nat \<Rightarrow> string" where
  "show_nat n =
     (if n < 10 then [char_of (48 + n)]
      else show_nat (n div 10) @ [char_of (48 + n mod 10)])"

definition show_int :: "int \<Rightarrow> string" where
  "show_int i = (if i < 0 then CHR ''-'' # show_nat (nat (- i)) else show_nat (nat i))"

text \<open>The code points of a text from its UTF-8 bytes; \<open>len\<close> counts code points. A byte
  that a well-formed encoding would supply and that is missing reads as 0.\<close>

definition byte_at :: "nat list \<Rightarrow> nat \<Rightarrow> nat" where
  "byte_at bs i = (if i < length bs then bs ! i else 0)"

fun code_points :: "nat list \<Rightarrow> nat list" where
  "code_points [] = []"
| "code_points (a # bs) =
     (if a < 0x80 then a # code_points bs
      else if a < 0xE0 then
        ((a mod 32) * 64 + byte_at bs 0 mod 64) # code_points (drop 1 bs)
      else if a < 0xF0 then
        ((a mod 16) * 4096 + (byte_at bs 0 mod 64) * 64 + byte_at bs 1 mod 64)
          # code_points (drop 2 bs)
      else
        ((a mod 8) * 262144 + (byte_at bs 0 mod 64) * 4096 + (byte_at bs 1 mod 64) * 64
           + byte_at bs 2 mod 64) # code_points (drop 3 bs))"

definition py_len :: "string \<Rightarrow> nat" where
  "py_len s = length (code_points (map of_char s))"

text \<open>\<open>str.capitalize\<close> on ASCII letters: the first character in upper case, the rest in
  lower case; other bytes are kept.\<close>

definition upper_char :: "char \<Rightarrow> char" where
  "upper_char c =
     (if (97::nat) \<le> of_char c \<and> of_char c \<le> (122::nat) then char_of (of_char c - (32::nat))
      else c)"

definition lower_char :: "char \<Rightarrow> char" where
  "lower_char c =
     (if (65::nat) \<le> of_char c \<and> of_char c \<le> (90::nat) then char_of (of_char c + (32::nat))
      else c)"

fun capitalize :: "string \<Rightarrow> string" where
  "capitalize [] = []"
| "capitalize (c # cs) = upper_char c # map lower_char cs"

text \<open>\<open>s.split(sep)\<close> for a one-character separator; \<open>cur\<close> is the piece being read.\<close>

fun split_on :: "char \<Rightarrow> string \<Rightarrow> string \<Rightarrow> string list" where
  "split_on sep [] cur = [cur]"
| "split_on sep (c # cs) cur =
     (if c = sep then cur # split_on sep cs [] else split_on sep cs (cur @ [c]))"

text \<open>Line 201: \<open>[x for x in args.keys.split(",") if x]\<close>.\<close>

definition parse_keys :: "string \<Rightarrow> string list" where
  "parse_keys s = filter (\<lambda>x. x \<noteq> []) (split_on CHR '','' s [])"

fun join :: "string \<Rightarrow> string list \<Rightarrow> string" where
  "join sep [] = []"
| "join sep [x] = x"
| "join sep (x # y # ys) = x @ sep @ join sep (y # ys)"

text \<open>\<open>json.dumps\<close> with its defaults (\<open>ensure_ascii\<close>, separators \<open>", "\<close> and
  \<open>": "\<close>): every character outside the printable ASCII range, the quote and the backslash
  are escaped, code points above the basic plane as a surrogate pair.\<close>

definition hex_digit :: "nat \<Rightarrow> char" where
  "hex_digit d = (if d mod 16 < 10 then char_of (48 + d mod 16) else char_of (87 + d mod 16))"

definition hex4 :: "nat \<Rightarrow> string" where
  "hex4 n = [hex_digit (n div 4096), hex_digit (n div 256), hex_digit (n div 16), hex_digit n]"

definition escape_code_point :: "nat \<Rightarrow> string" where
  "escape_code_point n =
     (if n = 0x22 then [CHR 0x5C, CHR 0x22]
      else if n = 0x5C then [CHR 0x5C, CHR 0x5C]
      else if n = 0x0A then [CHR 0x5C, CHR ''n'']
      else if n = 0x0D then [CHR 0x5C, CHR ''r'']
      else if n = 0x09 then [CHR 0x5C, CHR ''t'']
      else if n = 0x08 then [CHR 0x5C, CHR ''b'']
      else if n = 0x0C then [CHR 0x5C, CHR ''f'']
      else if 0x20 \<le> n \<and> n \<le> 0x7E then [char_of n]
      else if n < 0x10000 then [CHR 0x5C, CHR ''u''] @ hex4 n
      else [CHR 0x5C, CHR ''u''] @ hex4 (0xD800 + ((n - 0x10000) div 1024) mod 1024)
         @ [CHR 0x5C, CHR ''u''] @ hex4 (0xDC00 + (n - 0x10000) mod 1024))"

definition json_string :: "string \<Rightarrow> string" where
  "json_string s =
     [CHR 0x22] @ concat (map escape_code_point (code_points (map of_char s))) @ [CHR 0x22]"

datatype pyexn = TypeError | AttributeError | Raised string

text \<open>\<open>json.dumps(v)\<close> for a value of a record: a date is not serializable.\<close>

fun json_dumps :: "pyval \<Rightarrow> pyexn + string" where
  "json_dumps PyNone = Inr ''null''"
| "json_dumps (PyBool b) = Inr (if b then ''true'' else ''false'')"
| "json_dumps (PyInt i) = Inr (show_int i)"
| "json_dumps (PyStr s) = Inr (json_string s)"
| "json_dumps (PyDate y m d) = Inl TypeError"

text \<open>\<open>json.dumps\<close> of a list of texts (the keys), of a dict from text to text, of the
  matrix (a list of such dicts) and of the Slack payload of line 276.\<close>

definition json_list :: "string list \<Rightarrow> string" where
  "json_list xs = ''['' @ join '', '' xs @ '']''"

definition json_dumps_keys :: "string list \<Rightarrow> string" where
  "json_dumps_keys ks = json_list (map json_string ks)"

definition json_dict :: "(string \<times> string) list \<Rightarrow> string" where
  "json_dict kvs =
     ''{'' @ join '', '' (map (\<lambda>(k, v). json_string k @ '': '' @ json_string v) kvs) @ ''}''"

definition json_dumps_matrix :: "(string \<times> string) list list \<Rightarrow> string" where
  "json_dumps_matrix matrix = json_list (map json_dict matrix)"

definition json_dumps_data :: "string \<Rightarrow> string" where
  "json_dumps_data message =
     ''{'' @ json_string ''text'' @ '': '' @ json_string message @ '', ''
       @ json_string ''unfurl_links'' @ '': true}''"

section \<open>The run: arguments, environment, effects\<close>

text \<open>The namespace argparse returns (lines 46 to 119). Options without a default are
  \<open>None\<close> when absent from the command line.\<close>

record args =
  command :: "string option"
  original :: "string option"
  deploy :: bool
  deploy_twitter :: bool
  deploy_mastodon :: bool
  test :: bool
  updated :: "string option"
  keys :: "string option"
  unique :: string

text \<open>What the run reads from outside: the process environment, the file system with each
  file's parsed YAML content (or the exception the loader raises), and the external
  collaborators, whose results are indexed by the position of the record being processed:
  the draw of \<open>random.choice\<close>, the exception of \<open>create_tweet\<close> and \<open>toot\<close> if any, and
  the response of \<open>requests.post\<close> (or the exception it raises).\<close>

record response =
  status_code :: int
  reason :: string

record world =
  environ :: "string \<Rightarrow> string option"
  path_exists :: "string \<Rightarrow> bool"
  yaml_load :: "string \<Rightarrow> pyexn + snapshot"
  random_choice :: "nat \<Rightarrow> nat"
  create_tweet :: "nat \<Rightarrow> string \<Rightarrow> pyexn option"
  toot :: "nat \<Rightarrow> string \<Rightarrow> pyexn option"
  requests_post :: "nat \<Rightarrow> string \<Rightarrow> string \<Rightarrow> pyexn + response"

text \<open>What the run does, in order: the trace. \<open>PrintGroup\<close> is line 308, whose text is
  Python's \<open>repr\<close> of the list. \<open>FileAppend path name value\<close> is the line
  \<open>name=value\<close> appended to the file at \<open>path\<close>. The three dispatch events carry what the
  call returned.\<close>

datatype event =
    Print string
  | PrintHelp
  | PrintGroup "entry list"
  | ReadYaml string
  | FileAppend string string string
  | CreateTweet string "pyexn option"
  | Toot string "pyexn option"
  | HttpPost string string "pyexn + response"

text \<open>How a run ends: falling off the end of \<open>main\<close>, or stopped by \<open>sys.exit\<close> (with
  a code or with a message) or by an exception nothing catches.\<close>

datatype exit_arg = Code int | Msg string

datatype stop = SysExit exit_arg | Uncaught pyexn

datatype outcome = Returned | Stopped stop

text \<open>The exit code of the process: \<open>sys.exit\<close> with a message and an uncaught exception
  both give 1.\<close>

fun exit_code :: "outcome \<Rightarrow> int" where
  "exit_code Returned = 0"
| "exit_code (Stopped (SysExit (Code n))) = n"
| "exit_code (Stopped (SysExit (Msg s))) = 1"
| "exit_code (Stopped (Uncaught e)) = 1"

text \<open>A part of the run yields its trace and either what stopped the run (\<open>Inl\<close>) or
  its value. \<open>then_do\<close> sequences two parts.\<close>

type_synonym 'a part = "event list \<times> (stop + 'a)"

definition then_do :: "'a part \<Rightarrow> ('a \<Rightarrow> 'b part) \<Rightarrow> 'b part" where
  "then_do m f =
     (case m of
        (tr, Inl stop) \<Rightarrow> (tr, Inl stop)
      | (tr, Inr x) \<Rightarrow> (case f x of (tr', r) \<Rightarrow> (tr @ tr', r)))"

text \<open>\<open>not value\<close> for a text that may be \<open>None\<close>.\<close>

definition is_set :: "string option \<Rightarrow> bool" where
  "is_set value = (case value of None \<Rightarrow> False | Some s \<Rightarrow> s \<noteq> [])"

text \<open>\<open>str(e)\<close> of an exception.\<close>

fun exn_str :: "pyexn \<Rightarrow> string" where
  "exn_str TypeError = ''TypeError''"
| "exn_str AttributeError = ''AttributeError''"
| "exn_str (Raised s) = s"

subsection \<open>set_env_and_output (lines 30 to 43)\<close>

text \<open>The line is printed before the file is opened; \<open>open(None, "a")\<close> raises TypeError
  when the variable naming the file is not set. Opening and writing a named file succeed.\<close>

fun write_env_vars :: "world \<Rightarrow> string \<Rightarrow> string \<Rightarrow> string list \<Rightarrow> unit part" where
  "write_env_vars w name value [] = ([], Inr ())"
| "write_env_vars w name value (env_var # rest) =
     then_do
       ([Print (''Writing '' @ name @ ''='' @ value @ '' to '' @ env_var)], Inr ())
       (\<lambda>_. case environ w env_var of
               None \<Rightarrow> ([], Inl (Uncaught TypeError))
             | Some environment_file_path \<Rightarrow>
                 then_do ([FileAppend environment_file_path name value], Inr ())
                   (\<lambda>_. write_env_vars w name value rest))"

definition set_env_and_output :: "world \<Rightarrow> string \<Rightarrow> string \<Rightarrow> unit part" where
  "set_env_and_output w name value =
     write_env_vars w name value [''GITHUB_ENV'', ''GITHUB_OUTPUT'']"

subsection \<open>get_twitter_client and get_mastodon_client (lines 122 to 156)\<close>

text \<open>A client is the credentials it was built from. The loop yields the name of the
  first variable that is unset or empty, or all the values.\<close>

datatype client = Client "(string \<times> string) list"

fun read_envars :: "world \<Rightarrow> string list \<Rightarrow> (string \<times> string) list
    \<Rightarrow> string + (string \<times> string) list" where
  "read_envars w [] envars = Inr envars"
| "read_envars w (envar # rest) envars =
     (case environ w envar of
        None \<Rightarrow> Inl envar
      | Some value \<Rightarrow>
          if value = [] then Inl envar else read_envars w rest (envars @ [(envar, value)]))"

definition twitter_envars :: "string list" where
  "twitter_envars =
     [''TWITTER_API_KEY'', ''TWITTER_API_SECRET'',
      ''TWITTER_CONSUMER_KEY'', ''TWITTER_CONSUMER_SECRET'']"

definition mastodon_envars :: "string list" where
  "mastodon_envars = [''MASTODON_ACCESS_TOKEN'', ''MASTODON_API_BASE_URL'']"

definition get_twitter_client :: "world \<Rightarrow> client part" where
  "get_twitter_client w =
     (case read_envars w twitter_envars [] of
        Inl envar \<Rightarrow>
          ([], Inl (SysExit (Msg (envar @ '' is not set, and required when twitter deploy is true!''))))
      | Inr envars \<Rightarrow> ([], Inr (Client envars)))"

definition get_mastodon_client :: "world \<Rightarrow> client part" where
  "get_mastodon_client w =
     (case read_envars w mastodon_envars [] of
        Inl envar \<Rightarrow>
          ([], Inl (SysExit (Msg (envar @ '' is not set, and required when mastodon deploy is true!''))))
      | Inr envars \<Rightarrow> ([], Inr (Client envars)))"

subsection \<open>prepare_post (lines 158 to 169)\<close>

text \<open>Concatenating a text with a value that is not a text raises TypeError.\<close>

fun prepare_post :: "entry \<Rightarrow> string list \<Rightarrow> string \<Rightarrow> pyexn + string" where
  "prepare_post entry [] post = Inr post"
| "prepare_post entry (key # ks) post =
     (case map_of entry key of
        None \<Rightarrow> prepare_post entry ks post
      | Some (PyStr s) \<Rightarrow>
          if key = ''url'' then prepare_post entry ks (post @ s @ [CHR 0x0A])
          else prepare_post entry ks (post @ capitalize key @ '': '' @ s @ [CHR 0x0A])
      | Some _ \<Rightarrow> Inl TypeError)"

subsection \<open>The loop over the Delta (lines 239 to 302)\<close>

definition icons :: "string list" where
  "icons =
     [[CHR 0xE2, CHR 0xAD, CHR 0x90, CHR 0xEF, CHR 0xB8, CHR 0x8F],
      [CHR 0xF0, CHR 0x9F, CHR 0x98, CHR 0x8D, CHR 0xEF, CHR 0xB8, CHR 0x8F],
      [CHR 0xE2, CHR 0x9D, CHR 0xA4, CHR 0xEF, CHR 0xB8, CHR 0x8F],
      [CHR 0xF0, CHR 0x9F, CHR 0x91, CHR 0x80, CHR 0xEF, CHR 0xB8, CHR 0x8F],
      [CHR 0xE2, CHR 0x9C, CHR 0xA8, CHR 0xEF, CHR 0xB8, CHR 0x8F],
      [CHR 0xF0, CHR 0x9F, CHR 0xA4, CHR 0x96, CHR 0xEF, CHR 0xB8, CHR 0x8F],
      [CHR 0xF0, CHR 0x9F, CHR 0x92, CHR 0xBC, CHR 0xEF, CHR 0xB8, CHR 0x8F],
      [CHR 0xF0, CHR 0x9F, CHR 0xA4, CHR 0xA9, CHR 0xEF, CHR 0xB8, CHR 0x8F],
      [CHR 0xF0, CHR 0x9F, CHR 0x98, CHR 0xB8, CHR 0xEF, CHR 0xB8, CHR 0x8F],
      [CHR 0xF0, CHR 0x9F, CHR 0x98, CHR 0xBB, CHR 0xEF, CHR 0xB8, CHR 0x8F],
      [CHR 0xF0, CHR 0x9F, CHR 0x91, CHR 0x89, CHR 0xEF, CHR 0xB8, CHR 0x8F],
      [CHR 0xF0, CHR 0x9F, CHR 0x95, CHR 0xB6, CHR 0xEF, CHR 0xB8, CHR 0x8F],
      [CHR 0xF0, CHR 0x9F, CHR 0x94, CHR 0xA5, CHR 0xEF, CHR 0xB8, CHR 0x8F],
      [CHR 0xF0, CHR 0x9F, CHR 0x92, CHR 0xBB, CHR 0xEF, CHR 0xB8, CHR 0x8F]]"

text \<open>Lines 266 to 271: the dict \<open>filtered\<close>, assigned key by key; a value whose
  \<open>json.dumps\<close> raises is skipped. \<open>dict_set\<close> is the assignment \<open>d[k] = s\<close>.\<close>

fun dict_set :: "(string \<times> string) list \<Rightarrow> string \<Rightarrow> string \<Rightarrow> (string \<times> string) list" where
  "dict_set [] k s = [(k, s)]"
| "dict_set ((k', s') # d) k s = (if k' = k then (k, s) # d else (k', s') # dict_set d k s)"

fun filter_entry :: "entry \<Rightarrow> (string \<times> string) list \<Rightarrow> (string \<times> string) list" where
  "filter_entry [] filtered = filtered"
| "filter_entry ((k, v) # items) filtered =
     (case json_dumps v of
        Inl e \<Rightarrow> filter_entry items filtered
      | Inr s \<Rightarrow> filter_entry items (dict_set filtered k s))"

text \<open>Lines 279 to 285: the tweet. The exception of \<open>create_tweet\<close> is caught and printed.\<close>

definition tweet_step :: "args \<Rightarrow> world \<Rightarrow> client option \<Rightarrow> nat \<Rightarrow> string \<Rightarrow> string
    \<Rightarrow> unit part" where
  "tweet_step a w client i choice post =
     (if deploy_twitter a \<and> client \<noteq> None then
        (let message = ''New #RSEng Job! '' @ choice @ [CHR 0x0A] @ post in
         case create_tweet w i message of
           None \<Rightarrow> ([Print message, CreateTweet message None], Inr ())
         | Some e \<Rightarrow>
             ([Print message, CreateTweet message (Some e),
               Print (''Issue posting tweet: '' @ exn_str e @ '', and length is ''
                      @ show_nat (py_len message))], Inr ()))
      else ([], Inr ()))"

text \<open>Lines 288 to 290: the toot. Nothing catches the exception of \<open>toot\<close>.\<close>

definition toot_step :: "args \<Rightarrow> world \<Rightarrow> client option \<Rightarrow> nat \<Rightarrow> string \<Rightarrow> string
    \<Rightarrow> unit part" where
  "toot_step a w mastodon_client i choice post =
     (if deploy_mastodon a \<and> mastodon_client \<noteq> None then
        (let message = ''New #RSEng Job! '' @ choice @ '': '' @ post in
         case toot w i message of
           None \<Rightarrow> ([Toot message None], Inr ())
         | Some e \<Rightarrow> ([Toot message (Some e)], Inl (Uncaught e)))
      else ([], Inr ()))"

text \<open>Lines 293 to 302: the webhook. With no URL, \<open>requests.post\<close> raises (no schema).\<close>

definition slack_step :: "args \<Rightarrow> world \<Rightarrow> string option \<Rightarrow> nat \<Rightarrow> string \<Rightarrow> unit part" where
  "slack_step a w webhook i data =
     (if \<not> deploy a \<or> test a then ([], Inr ())
      else case webhook of
        None \<Rightarrow> ([], Inl (Uncaught (Raised ''MissingSchema'')))
      | Some url \<Rightarrow>
          (case requests_post w i url data of
             Inl e \<Rightarrow> ([HttpPost url data (Inl e)], Inl (Uncaught e))
           | Inr r \<Rightarrow>
               if status_code r \<noteq> 200 \<and> status_code r \<noteq> 201 then
                 ([HttpPost url data (Inr r),
                   Print (''<Response ['' @ show_int (status_code r) @ '']>'')],
                  Inl (SysExit (Msg (''Issue with making POST request: '' @ reason r @ '', ''
                                     @ show_int (status_code r)))))
               else ([HttpPost url data (Inr r)], Inr ())))"

text \<open>One iteration, for the record at position \<open>i\<close> of the Delta; it yields the matrix
  with the record's \<open>filtered\<close> dict appended (line 275).\<close>

definition process_entry :: "args \<Rightarrow> world \<Rightarrow> client option \<Rightarrow> client option
    \<Rightarrow> string option \<Rightarrow> string list \<Rightarrow> nat \<Rightarrow> entry \<Rightarrow> (string \<times> string) list list
    \<Rightarrow> (string \<times> string) list list part" where
  "process_entry a w client mastodon_client webhook ks i entry matrix =
     (case prepare_post entry ks [] of
        Inl e \<Rightarrow> ([], Inl (Uncaught e))
      | Inr post \<Rightarrow>
          (let choice = icons ! (random_choice w i mod length icons);
               message = ''New Job! '' @ choice @ [CHR 0x0A] @ post;
               filtered = filter_entry entry [];
               data = json_dumps_data message
           in then_do ([Print message], Inr ())
                (\<lambda>_. then_do (tweet_step a w client i choice post)
                (\<lambda>_. then_do (toot_step a w mastodon_client i choice post)
                (\<lambda>_. then_do (slack_step a w webhook i data)
                (\<lambda>_. ([], Inr (matrix @ [filtered]))))))))"

fun process_entries :: "args \<Rightarrow> world \<Rightarrow> client option \<Rightarrow> client option
    \<Rightarrow> string option \<Rightarrow> string list \<Rightarrow> nat \<Rightarrow> entry list \<Rightarrow> (string \<times> string) list list
    \<Rightarrow> (string \<times> string) list list part" where
  "process_entries a w client mastodon_client webhook ks i [] matrix = ([], Inr matrix)"
| "process_entries a w client mastodon_client webhook ks i (entry # new) matrix =
     then_do (process_entry a w client mastodon_client webhook ks i entry matrix)
       (\<lambda>matrix'. process_entries a w client mastodon_client webhook ks (Suc i) new matrix')"

subsection \<open>main (lines 172 to 308)\<close>

text \<open>Lines 184 to 186. \<open>os.path.exists(None)\<close> raises TypeError.\<close>

fun check_exists :: "world \<Rightarrow> string option list \<Rightarrow> unit part" where
  "check_exists w [] = ([], Inr ())"
| "check_exists w (None # rest) = ([], Inl (Uncaught TypeError))"
| "check_exists w (Some filename # rest) =
     (if \<not> path_exists w filename then ([], Inl (SysExit (Msg (filename @ '' does not exist.''))))
      else check_exists w rest)"

text \<open>read_yaml (lines 20 to 23).\<close>

definition read_yaml :: "world \<Rightarrow> string option \<Rightarrow> snapshot part" where
  "read_yaml w filename =
     (case filename of
        None \<Rightarrow> ([], Inl (Uncaught TypeError))
      | Some f \<Rightarrow>
          (case yaml_load w f of
             Inl e \<Rightarrow> ([ReadYaml f], Inl (Uncaught e))
           | Inr content \<Rightarrow> ([ReadYaml f], Inr content)))"

text \<open>Lines 173 to 201: everything before the differ. It yields the two clients, the two
  snapshots and the list of keys.\<close>

definition startup :: "args \<Rightarrow> world
    \<Rightarrow> (client option \<times> client option \<times> snapshot \<times> snapshot \<times> string list) part" where
  "startup a w =
     (if \<not> is_set (command a) then ([PrintHelp], Inl (SysExit (Code 0)))
      else
        then_do (check_exists w [original a, updated a])
        (\<lambda>_. then_do (if deploy_twitter a
                       then then_do (get_twitter_client w) (\<lambda>c. ([], Inr (Some c)))
                       else ([], Inr None))
        (\<lambda>client. then_do (if deploy_mastodon a
                            then then_do (get_mastodon_client w) (\<lambda>c. ([], Inr (Some c)))
                            else ([], Inr None))
        (\<lambda>mastodon_client. then_do (read_yaml w (original a))
        (\<lambda>original_content. then_do (read_yaml w (updated a))
        (\<lambda>updated_content.
           case keys a of
             None \<Rightarrow> ([], Inl (Uncaught AttributeError))
           | Some s \<Rightarrow>
               ([], Inr (client, mastodon_client, original_content, updated_content,
                         parse_keys s))))))))"

text \<open>Lines 224 to 228: nothing new.\<close>

definition short_circuit :: "world \<Rightarrow> unit part" where
  "short_circuit w =
     then_do ([Print ''No new jobs found.''], Inr ())
     (\<lambda>_. then_do (set_env_and_output w ''fields'' ''[]'')
     (\<lambda>_. then_do (set_env_and_output w ''matrix'' ''[]'')
     (\<lambda>_. then_do (set_env_and_output w ''empty_matrix'' ''true'')
     (\<lambda>_. ([], Inl (SysExit (Code 0)))))))"

text \<open>Lines 230 to 308: the webhook check, the loop and the outputs.\<close>

definition process :: "args \<Rightarrow> world \<Rightarrow> client option \<Rightarrow> client option \<Rightarrow> string list
    \<Rightarrow> entry list \<Rightarrow> unit part" where
  "process a w client mastodon_client ks new =
     (let webhook = environ w ''SLACK_WEBHOOK'' in
      if \<not> is_set webhook \<and> deploy a
      then ([], Inl (SysExit (Msg ''Cannot find SLACK_WEBHOOK in environment.'')))
      else
        then_do (process_entries a w client mastodon_client webhook ks 0 new [])
        (\<lambda>matrix. then_do (set_env_and_output w ''fields'' (json_dumps_keys ks))
        (\<lambda>_. then_do (set_env_and_output w ''matrix'' (json_dumps_matrix matrix))
        (\<lambda>_. then_do (set_env_and_output w ''empty_matrix'' ''false'')
        (\<lambda>_. ([Print (''matrix: '' @ json_dumps_matrix matrix), PrintGroup new], Inr ()))))))"

text \<open>Lines 203 to 228: the differ and the choice between the two paths.\<close>

definition differ :: "args \<Rightarrow> world
    \<Rightarrow> client option \<times> client option \<times> snapshot \<times> snapshot \<times> string list \<Rightarrow> unit part" where
  "differ a w loaded =
     (case loaded of (client, mastodon_client, original_content, updated_content, ks) \<Rightarrow>
        (case classify updated_content (unique a)
                (previous_values original_content (unique a) []) ([], []) of
           (new, entries) \<Rightarrow>
             if test a then process a w client mastodon_client ks entries
             else if new = [] then short_circuit w
             else process a w client mastodon_client ks new))"

definition main :: "args \<Rightarrow> world \<Rightarrow> event list \<times> outcome" where
  "main a w =
     (case then_do (startup a w) (differ a w) of
        (tr, Inl stop) \<Rightarrow> (tr, Stopped stop)
      | (tr, Inr _) \<Rightarrow> (tr, Returned))"

section \<open>Vocabulary of the statements\<close>

text \<open>The notions the specification speaks in, written from its words: a record has the
  uniqueness field; it carries a value equal to \<open>v\<close> in that field; some record of a
  snapshot does; the field's value counts as true.\<close>

definition spec_has_field :: "string \<Rightarrow> entry \<Rightarrow> bool" where
  "spec_has_field F r = (map_of r F \<noteq> None)"

definition spec_carries :: "string \<Rightarrow> pyval \<Rightarrow> entry \<Rightarrow> bool" where
  "spec_carries F v r = (case map_of r F of None \<Rightarrow> False | Some u \<Rightarrow> py_eq u v)"

definition spec_occurs :: "string \<Rightarrow> snapshot \<Rightarrow> pyval \<Rightarrow> bool" where
  "spec_occurs F A v = list_ex (spec_carries F v) A"

text \<open>The record has field \<open>F\<close> and no record of \<open>A\<close> has the same value there.\<close>

definition spec_is_new :: "string \<Rightarrow> snapshot \<Rightarrow> entry \<Rightarrow> bool" where
  "spec_is_new F A r =
     (case map_of r F of None \<Rightarrow> False | Some v \<Rightarrow> \<not> spec_occurs F A v)"

text \<open>The record has field \<open>F\<close> and some record of \<open>A\<close> has the same value there.\<close>

definition spec_is_existing :: "string \<Rightarrow> snapshot \<Rightarrow> entry \<Rightarrow> bool" where
  "spec_is_existing F A r =
     (case map_of r F of None \<Rightarrow> False | Some v \<Rightarrow> spec_occurs F A v)"

definition spec_field_truthy :: "string \<Rightarrow> entry \<Rightarrow> bool" where
  "spec_field_truthy F r = (case map_of r F of None \<Rightarrow> False | Some v \<Rightarrow> truthy v)"

text \<open>Reading a trace: the dispatch calls, the webhook calls, and the values written
  under an output name.\<close>

fun is_http_post :: "event \<Rightarrow> bool" where
  "is_http_post (HttpPost url body r) = True"
| "is_http_post e = False"

fun is_dispatch :: "event \<Rightarrow> bool" where
  "is_dispatch (CreateTweet m r) = True"
| "is_dispatch (Toot m r) = True"
| "is_dispatch (HttpPost url body r) = True"
| "is_dispatch e = False"

fun written :: "string \<Rightarrow> event list \<Rightarrow> string list" where
  "written name [] = []"
| "written name (FileAppend path n v # tr) =
     (if n = name then v # written name tr else written name tr)"
| "written name (e # tr) = written name tr"

fun is_file_append :: "event \<Rightarrow> bool" where
  "is_file_append (FileAppend path n v) = True"
| "is_file_append e = False"

text \<open>A part of the run is quiet for a kind of event when its trace has none of them.\<close>

definition quiet :: "(event \<Rightarrow> bool) \<Rightarrow> 'a part \<Rightarrow> bool" where
  "quiet P m = (filter P (fst m) = [])"

text \<open>A webhook call answered with a status other than 200 and 201, the two events the
  run leaves when it gives up after such an answer, and what it stops with.\<close>

fun bad_post :: "event \<Rightarrow> bool" where
  "bad_post (HttpPost url body (Inr r)) = (status_code r \<noteq> 200 \<and> status_code r \<noteq> 201)"
| "bad_post e = False"

definition abort_events :: "string \<Rightarrow> string \<Rightarrow> response \<Rightarrow> event list" where
  "abort_events url body r =
     [HttpPost url body (Inr r), Print (''<Response ['' @ show_int (status_code r) @ '']>'')]"

definition abort_outcome :: "response \<Rightarrow> stop" where
  "abort_outcome r =
     SysExit (Msg (''Issue with making POST request: '' @ reason r @ '', ''
                   @ show_int (status_code r)))"

text \<open>Either no webhook call of the part was answered badly, or the part stopped right
  after the first such answer.\<close>

definition stops_at_bad_post :: "'a part \<Rightarrow> bool" where
  "stops_at_bad_post m =
     (filter bad_post (fst m) = []
      \<or> (\<exists>tr url body r. fst m = tr @ abort_events url body r \<and> filter bad_post tr = []
            \<and> snd m = Inl (abort_outcome r)))"

section \<open>Sample runs\<close>

definition job :: "string \<Rightarrow> string \<Rightarrow> entry" where
  "job title url = [(''title'', PyStr title), (''url'', PyStr url)]"

definition sample_args :: args where
  "sample_args =
     \<lparr>command = Some ''update'', original = Some ''old.yaml'', deploy = False,
      deploy_twitter = False, deploy_mastodon = False, test = False,
      updated = Some ''new.yaml'', keys = Some ''title,url'', unique = ''url''\<rparr>"

definition sample_environ :: "(string \<times> string) list" where
  "sample_environ =
     [(''GITHUB_ENV'', ''env''), (''GITHUB_OUTPUT'', ''out''),
      (''SLACK_WEBHOOK'', ''https://hook''),
      (''TWITTER_API_KEY'', ''k''), (''TWITTER_API_SECRET'', ''s''),
      (''TWITTER_CONSUMER_KEY'', ''ck''), (''TWITTER_CONSUMER_SECRET'', ''cs''),
      (''MASTODON_ACCESS_TOKEN'', ''t''), (''MASTODON_API_BASE_URL'', ''https://m'')]"

text \<open>Both files exist and hold the snapshots \<open>A\<close> and \<open>B\<close>; every external call
  succeeds.\<close>

definition sample_world :: "snapshot \<Rightarrow> snapshot \<Rightarrow> world" where
  "sample_world A B =
     \<lparr>environ = map_of sample_environ,
      path_exists = (\<lambda>f. True),
      yaml_load = (\<lambda>f. if f = ''old.yaml'' then Inr A else Inr B),
      random_choice = (\<lambda>i. 0),
      create_tweet = (\<lambda>i m. None),
      toot = (\<lambda>i m. None),
      requests_post = (\<lambda>i u d. Inr \<lparr>status_code = 200, reason = ''OK''\<rparr>)\<rparr>"

text \<open>A test run with every channel enabled.\<close>

definition dry_run_args :: args where
  "dry_run_args =
     sample_args\<lparr>deploy := True, deploy_twitter := True, deploy_mastodon := True,
                  test := True\<rparr>"

text \<open>Three new jobs; the webhook answers the second call with status 500.\<close>

definition server_error :: response where
  "server_error = \<lparr>status_code = 500, reason = ''Server Error''\<rparr>"

definition three_jobs :: snapshot where
  "three_jobs = [job ''a'' ''u1'', job ''b'' ''u2'', job ''c'' ''u3'']"

definition webhook_down_world :: world where
  "webhook_down_world =
     (sample_world [] three_jobs)
       \<lparr>requests_post := (\<lambda>i u d. Inr (if i = 1 then server_error
                                        else \<lparr>status_code = 200, reason = ''OK''\<rparr>))\<rparr>"

definition deploy_args :: args where
  "deploy_args = sample_args\<lparr>deploy := True\<rparr>"

text \<open>A job with a field that holds a date.\<close>

definition dated_job :: entry where
  "dated_job = (''posted'', PyDate 2024 1 5) # job ''a'' ''u1''"

text \<open>The sample environment with one variable removed.\<close>

definition environ_without :: "string \<Rightarrow> string \<Rightarrow> string option" where
  "environ_without name = map_of (filter (\<lambda>kv. fst kv \<noteq> name) sample_environ)"

definition no_webhook_world :: "snapshot \<Rightarrow> snapshot \<Rightarrow> world" where
  "no_webhook_world A B = (sample_world A B)\<lparr>environ := environ_without ''SLACK_WEBHOOK''\<rparr>"

definition twitter_args :: args where
  "twitter_args = sample_args\<lparr>deploy_twitter := True\<rparr>"

definition mastodon_args :: args where
  "mastodon_args = sample_args\<lparr>deploy_mastodon := True\<rparr>"

definition two_jobs :: snapshot where
  "two_jobs = [job ''a'' ''u1'', job ''b'' ''u2'']"

text \<open>Two new jobs; every toot, respectively every tweet, raises.\<close>

definition mastodon_down_world :: world where
  "mastodon_down_world =
     (sample_world [] two_jobs)\<lparr>toot := (\<lambda>i m. Some (Raised ''MastodonNetworkError''))\<rparr>"

definition twitter_down_world :: world where
  "twitter_down_world =
     (sample_world [] two_jobs)\<lparr>create_tweet := (\<lambda>i m. Some (Raised ''403 Forbidden''))\<rparr>"

definition test_args :: args where
  "test_args = sample_args\<lparr>test := True\<rparr>"

text \<open>The keys to display include the field that holds the date.\<close>

definition posted_args :: args where
  "posted_args = sample_args\<lparr>keys := Some ''title,posted''\<rparr>"

section \<open>The differ\<close>

lemma py_eq_sym: "py_eq a b = py_eq b a"
  by (cases a; cases b) auto

lemma py_eq_trans: "py_eq a b \<Longrightarrow> py_eq b c \<Longrightarrow> py_eq a c"
  by (cases a; cases b; cases c) (auto split: if_splits)

lemma py_in_trans: "py_in u s \<Longrightarrow> py_eq u v \<Longrightarrow> py_in v s"
  by (induction s) (auto intro: py_eq_trans simp: py_eq_sym)

lemma py_in_append: "py_in v (s @ t) = (py_in v s \<or> py_in v t)"
  by (induction s) auto

lemma py_in_set_add: "py_in v (set_add s u) = (py_in v s \<or> py_eq u v)"
  using py_in_trans [of u s v] by (auto simp: set_add_def py_in_append)

text \<open>The set \<open>previous\<close> holds exactly the uniqueness values of the original snapshot.\<close>

lemma py_in_previous_values:
  "py_in v (previous_values A F previous) = (py_in v previous \<or> spec_occurs F A v)"
  by (induction A arbitrary: previous)
     (auto simp: py_in_set_add spec_occurs_def spec_carries_def split: option.splits)

text \<open>The second loop appends to \<open>new\<close> and to \<open>entries\<close> two filters of the updated
  snapshot; \<open>previous\<close> is not changed on the way.\<close>

lemma classify_filter:
  "classify B F previous (new, entries) =
     (new @ filter (\<lambda>r. case map_of r F of None \<Rightarrow> False | Some v \<Rightarrow> \<not> py_in v previous) B,
      entries @ filter (\<lambda>r. case map_of r F of None \<Rightarrow> False
                              | Some v \<Rightarrow> py_in v previous \<and> truthy v) B)"
  by (induction B arbitrary: new entries) (auto split: option.splits)

lemma delta_False_filter: "delta False F A B = filter (spec_is_new F A) B"
  unfolding delta_def classify_filter spec_is_new_def
  by (auto simp: py_in_previous_values intro!: filter_cong split: option.splits)

lemma delta_True_filter:
  "delta True F A B = filter (\<lambda>r. spec_is_existing F A r \<and> spec_field_truthy F r) B"
  unfolding delta_def classify_filter spec_is_existing_def spec_field_truthy_def
  by (auto simp: py_in_previous_values intro!: filter_cong split: option.splits)

text \<open>C1: with test mode off, the Delta is the updated snapshot \<open>B\<close> filtered, in \<open>B\<close>'s
  order, by "has field \<open>F\<close> and no record of the original snapshot \<open>A\<close> has the same
  \<open>F\<close>-value"; so a record of \<open>B\<close> is in the Delta if and only if it satisfies that
  condition. "The same value" is Python's equality, as the set \<open>previous\<close> decides it.\<close>

theorem delta_is_new_records:
  "delta False F A B = filter (spec_is_new F A) B
   \<and> (r \<in> set (delta False F A B)
        \<longleftrightarrow> r \<in> set B \<and> spec_has_field F r
            \<and> \<not> (\<exists>a \<in> set A. \<exists>u v. map_of a F = Some u \<and> map_of r F = Some v \<and> py_eq u v))"
  by (auto simp: delta_False_filter spec_is_new_def spec_has_field_def spec_occurs_def
      spec_carries_def list_ex_iff split: option.splits)

theorem delta_is_new_records_witness:
  "delta False ''url'' [job ''a'' ''u1'', job ''b'' ''u2'']
      [job ''c'' ''u3'', job ''b'' ''u2'', [(''title'', PyStr ''d'')], job ''e'' ''u4'']
     = [job ''c'' ''u3'', job ''e'' ''u4'']"
  using delta_is_new_records [of "''url''" "[job ''a'' ''u1'', job ''b'' ''u2'']"
      "[job ''c'' ''u3'', job ''b'' ''u2'', [(''title'', PyStr ''d'')], job ''e'' ''u4'']"]
  by (simp add: spec_is_new_def spec_occurs_def spec_carries_def job_def)

text \<open>C10: with test mode off, when a value \<open>v\<close> is absent from the original snapshot,
  the records of the updated snapshot that carry \<open>v\<close> in the uniqueness field are all in
  the Delta, each as often as it occurs and in the same order: the walk over the updated
  snapshot does not extend the set of seen values, so duplicates are kept.\<close>

theorem duplicates_in_updated_all_new:
  assumes "\<not> spec_occurs F A v"
  shows "filter (spec_carries F v) (delta False F A B) = filter (spec_carries F v) B"
proof -
  have "spec_carries F v r \<Longrightarrow> spec_is_new F A r" for r
    using assms py_eq_trans
    by (auto simp: spec_carries_def spec_is_new_def spec_occurs_def list_ex_iff
        split: option.splits)
  then show ?thesis
    by (auto simp: delta_False_filter intro: filter_cong)
qed

theorem duplicates_in_updated_all_new_witness:
  "\<not> spec_occurs ''url'' [job ''a'' ''u1''] (PyStr ''u2'')
   \<and> filter (spec_carries ''url'' (PyStr ''u2''))
        (delta False ''url'' [job ''a'' ''u1'']
           [job ''b'' ''u2'', job ''a'' ''u1'', job ''c'' ''u2''])
      = [job ''b'' ''u2'', job ''c'' ''u2'']"
proof -
  have h: "\<not> spec_occurs ''url'' [job ''a'' ''u1''] (PyStr ''u2'')"
    by (simp add: spec_occurs_def spec_carries_def job_def)
  show ?thesis
    using h duplicates_in_updated_all_new [OF h,
        of "[job ''b'' ''u2'', job ''a'' ''u1'', job ''c'' ''u2'']"]
    by (simp add: spec_carries_def job_def)
qed

text \<open>C2, as stated, fails: in test mode a record whose uniqueness value is the empty
  text, present in both snapshots, has field \<open>url\<close> and is not in the Delta.\<close>

theorem test_mode_delta_counterexample:
  "delta True ''url'' [[(''url'', PyStr '''')]] [[(''url'', PyStr '''')]]
     \<noteq> filter (spec_has_field ''url'') [[(''url'', PyStr '''')]]"
  by (simp add: delta_def spec_has_field_def set_add_def)

text \<open>In test mode the list \<open>entries\<close> is only filled in the \<open>elif\<close> branch, so a record
  whose value is absent from the original snapshot is not in the Delta either.\<close>

lemma test_mode_drops_new_records: "delta True ''url'' [] [job ''a'' ''u1''] = []"
  by (simp add: delta_def job_def)

text \<open>C2, amended: with test mode on, among the records whose \<open>F\<close>-value also occurs in
  the original snapshot, the Delta holds exactly those records of \<open>B\<close> whose \<open>F\<close>-value
  counts as true (not empty, not zero, not null), in \<open>B\<close>'s order.\<close>

theorem test_mode_delta_existing:
  "filter (spec_is_existing F A) (delta True F A B)
     = filter (\<lambda>r. spec_is_existing F A r \<and> spec_field_truthy F r) B"
  by (auto simp: delta_True_filter intro: filter_cong)

section \<open>Sequencing\<close>

lemma then_do_Inl: "then_do (tr, Inl s) f = (tr, Inl s)"
  by (simp add: then_do_def)

lemma then_do_Inr: "then_do (tr, Inr x) f = (tr @ fst (f x), snd (f x))"
  by (simp add: then_do_def split: prod.splits)

lemma fst_then_do:
  "fst (then_do m f) = (case snd m of Inl s \<Rightarrow> fst m | Inr x \<Rightarrow> fst m @ fst (f x))"
  by (cases m; cases "snd m") (auto simp: then_do_Inl then_do_Inr)

lemma snd_then_do:
  "snd (then_do m f) = (case snd m of Inl s \<Rightarrow> Inl s | Inr x \<Rightarrow> snd (f x))"
  by (cases m; cases "snd m") (auto simp: then_do_Inl then_do_Inr)

lemma quiet_then_do: "quiet P m \<Longrightarrow> (\<And>x. quiet P (f x)) \<Longrightarrow> quiet P (then_do m f)"
  by (auto simp: quiet_def fst_then_do split: sum.splits)

lemma quiet_pair [simp]: "quiet P (tr, r) = (filter P tr = [])"
  by (simp add: quiet_def)

lemma quiet_single: "\<not> P e \<Longrightarrow> quiet P ([e], r)"
  by (simp add: quiet_def)

lemma quiet_write_env_vars:
  assumes "\<And>p n v. \<not> P (FileAppend p n v)" and "\<And>s. \<not> P (Print s)"
  shows "quiet P (write_env_vars w name value vars)"
proof (induction vars)
  case Nil
  show ?case by simp
next
  case (Cons env_var rest)
  then show ?case
    unfolding write_env_vars.simps using assms
    by (auto intro!: quiet_then_do quiet_single split: option.splits)
qed

lemma quiet_set_env_and_output:
  "(\<And>p n v. \<not> P (FileAppend p n v)) \<Longrightarrow> (\<And>s. \<not> P (Print s)) \<Longrightarrow> quiet P (set_env_and_output w name value)"
  unfolding set_env_and_output_def by (rule quiet_write_env_vars)

lemma fst_check_exists [simp]: "fst (check_exists w fs) = []"
  by (induction w fs rule: check_exists.induct) auto

lemma fst_get_twitter_client [simp]: "fst (get_twitter_client w) = []"
  by (simp add: get_twitter_client_def split: sum.splits)

lemma fst_get_mastodon_client [simp]: "fst (get_mastodon_client w) = []"
  by (simp add: get_mastodon_client_def split: sum.splits)

lemma quiet_read_yaml': "(\<And>f. \<not> P (ReadYaml f)) \<Longrightarrow> quiet P (read_yaml w fo)"
  by (simp add: read_yaml_def quiet_def split: sum.splits option.splits)

lemma quiet_check_exists: "quiet P (check_exists w fs)"
  by (simp add: quiet_def)

lemma quiet_get_twitter_client: "quiet P (get_twitter_client w)"
  by (simp add: quiet_def)

lemma quiet_get_mastodon_client: "quiet P (get_mastodon_client w)"
  by (simp add: quiet_def)

lemma quiet_startup:
  assumes "\<And>f. \<not> P (ReadYaml f)" and "\<not> P PrintHelp"
  shows "quiet P (startup a w)"
  unfolding startup_def using assms
  by (auto intro!: quiet_then_do quiet_read_yaml' quiet_check_exists quiet_get_twitter_client
      quiet_get_mastodon_client quiet_single split: option.splits)

lemma quiet_short_circuit:
  assumes "\<And>p n v. \<not> P (FileAppend p n v)" and "\<And>s. \<not> P (Print s)"
  shows "quiet P (short_circuit w)"
  unfolding short_circuit_def using assms
  by (auto intro!: quiet_then_do quiet_set_env_and_output quiet_single)

lemma quiet_tweet_step: "quiet is_http_post (tweet_step a w c i ch post)"
  by (simp add: tweet_step_def quiet_def Let_def split: option.splits)

lemma quiet_toot_step: "quiet is_http_post (toot_step a w c i ch post)"
  by (simp add: toot_step_def quiet_def Let_def split: option.splits)

lemma quiet_slack_step: "\<not> deploy a \<or> test a \<Longrightarrow> quiet is_http_post (slack_step a w wh i d)"
  by (simp add: slack_step_def quiet_def)

lemma quiet_process_entry:
  "\<not> deploy a \<or> test a \<Longrightarrow> quiet is_http_post (process_entry a w c m wh ks i e mx)"
  unfolding process_entry_def Let_def
  by (auto intro!: quiet_then_do quiet_tweet_step quiet_toot_step quiet_slack_step
      quiet_single split: sum.splits)

lemma quiet_process_entries:
  "\<not> deploy a \<or> test a \<Longrightarrow> quiet is_http_post (process_entries a w c m wh ks i es mx)"
  by (induction es arbitrary: i mx) (auto intro!: quiet_then_do quiet_process_entry)

lemma quiet_process:
  "\<not> deploy a \<or> test a \<Longrightarrow> quiet is_http_post (process a w c m ks new)"
  unfolding process_def Let_def
  by (auto intro!: quiet_then_do quiet_process_entries quiet_set_env_and_output)

lemma quiet_differ:
  "\<not> deploy a \<or> test a \<Longrightarrow> quiet is_http_post (differ a w loaded)"
  unfolding differ_def
  by (auto intro!: quiet_process quiet_short_circuit split: prod.splits)

lemma fst_main: "fst (main a w) = fst (then_do (startup a w) (differ a w))"
  by (simp add: main_def split: prod.splits sum.splits)

lemma snd_main:
  "snd (main a w) =
     (case snd (then_do (startup a w) (differ a w)) of
        Inl stop \<Rightarrow> Stopped stop
      | Inr u \<Rightarrow> Returned)"
  by (simp add: main_def split: prod.splits sum.splits)

text \<open>C6: when the chat-dispatch flag is off or test mode is on, the trace of the run
  holds no webhook call, whatever the other flags, the environment and the snapshots are.\<close>

theorem no_webhook_call_when_off_or_testing:
  assumes "\<not> deploy a \<or> test a"
  shows "filter is_http_post (fst (main a w)) = []"
proof -
  have "quiet is_http_post (then_do (startup a w) (differ a w))"
    using assms by (intro quiet_then_do quiet_startup quiet_differ) simp_all
  then show ?thesis
    by (simp add: fst_main quiet_def)
qed


theorem no_webhook_call_when_off_or_testing_witness:
  "test dry_run_args \<and> deploy dry_run_args
   \<and> filter is_http_post (fst (main dry_run_args (sample_world [job ''a'' ''u1''] [job ''a'' ''u1'']))) = []"
proof -
  have h: "\<not> deploy dry_run_args \<or> test dry_run_args"
    by (simp add: dry_run_args_def)
  from no_webhook_call_when_off_or_testing [OF h] show ?thesis
    by (simp add: dry_run_args_def sample_args_def)
qed

section \<open>The webhook\<close>

lemma stops_at_bad_post_quiet: "quiet bad_post m \<Longrightarrow> stops_at_bad_post m"
  by (simp add: stops_at_bad_post_def quiet_def)

lemma stops_at_bad_post_then_do:
  assumes "stops_at_bad_post m" and "\<And>x. stops_at_bad_post (f x)"
  shows "stops_at_bad_post (then_do m f)"
proof (cases "snd m")
  case (Inl s)
  then have "then_do m f = (fst m, Inl s)"
    by (cases m) (simp add: then_do_Inl)
  with assms(1) Inl show ?thesis
    by (simp add: stops_at_bad_post_def)
next
  case (Inr x)
  then have eq: "then_do m f = (fst m @ fst (f x), snd (f x))"
    by (cases m) (simp add: then_do_Inr)
  from Inr assms(1) have m: "filter bad_post (fst m) = []"
    by (auto simp: stops_at_bad_post_def)
  from assms(2) [of x] show ?thesis
    unfolding stops_at_bad_post_def eq
  proof (elim disjE exE conjE)
    assume "filter bad_post (fst (f x)) = []"
    with m show "filter bad_post (fst (fst m @ fst (f x), snd (f x))) = [] \<or>
      (\<exists>tr url body r. fst (fst m @ fst (f x), snd (f x)) = tr @ abort_events url body r
         \<and> filter bad_post tr = [] \<and> snd (fst m @ fst (f x), snd (f x)) = Inl (abort_outcome r))"
      by simp
  next
    fix tr url body r
    assume "fst (f x) = tr @ abort_events url body r" "filter bad_post tr = []"
      "snd (f x) = Inl (abort_outcome r)"
    with m have "fst (fst m @ fst (f x), snd (f x)) = (fst m @ tr) @ abort_events url body r
         \<and> filter bad_post (fst m @ tr) = [] \<and> snd (fst m @ fst (f x), snd (f x)) = Inl (abort_outcome r)"
      by simp
    then show "filter bad_post (fst (fst m @ fst (f x), snd (f x))) = [] \<or>
      (\<exists>tr url body r. fst (fst m @ fst (f x), snd (f x)) = tr @ abort_events url body r
         \<and> filter bad_post tr = [] \<and> snd (fst m @ fst (f x), snd (f x)) = Inl (abort_outcome r))"
      by blast
  qed
qed

lemma stops_at_bad_post_slack_step: "stops_at_bad_post (slack_step a w wh i d)"
proof -
  have "stops_at_bad_post ([HttpPost url d (Inr r), Print (''<Response ['' @ show_int (status_code r) @ '']>'')],
          Inl (SysExit (Msg (''Issue with making POST request: '' @ reason r @ '', '' @ show_int (status_code r)))))" for url r
    unfolding stops_at_bad_post_def
    by (rule disjI2, rule exI [of _ "[]"], rule exI [of _ url], rule exI [of _ d], rule exI [of _ r])
       (simp add: abort_events_def abort_outcome_def)
  then show ?thesis
    by (auto simp: slack_step_def stops_at_bad_post_quiet split: option.splits sum.splits)
qed


lemma stops_at_bad_post_Inr [simp]:
  "stops_at_bad_post (tr, Inr x) = (filter bad_post tr = [])"
  by (simp add: stops_at_bad_post_def)

lemma stops_at_bad_post_Nil [simp]: "stops_at_bad_post ([], r)"
  by (simp add: stops_at_bad_post_def)

lemma stops_at_bad_post_tweet_step: "stops_at_bad_post (tweet_step a w c i ch post)"
  by (simp add: tweet_step_def Let_def split: option.splits)

lemma stops_at_bad_post_toot_step: "stops_at_bad_post (toot_step a w c i ch post)"
  by (rule stops_at_bad_post_quiet) (simp add: toot_step_def Let_def split: option.splits)

lemma stops_at_bad_post_set_env_and_output:
  "stops_at_bad_post (set_env_and_output w name value)"
  by (rule stops_at_bad_post_quiet) (simp add: quiet_set_env_and_output)

lemma stops_at_bad_post_process_entry:
  "stops_at_bad_post (process_entry a w c m wh ks i e mx)"
  unfolding process_entry_def Let_def
  by (auto intro!: stops_at_bad_post_then_do stops_at_bad_post_slack_step
      stops_at_bad_post_tweet_step stops_at_bad_post_toot_step split: sum.splits)

lemma stops_at_bad_post_process_entries:
  "stops_at_bad_post (process_entries a w c m wh ks i es mx)"
  by (induction es arbitrary: i mx)
     (auto intro!: stops_at_bad_post_then_do stops_at_bad_post_process_entry)

lemma stops_at_bad_post_process: "stops_at_bad_post (process a w c m ks new)"
  unfolding process_def Let_def
  by (auto intro!: stops_at_bad_post_then_do stops_at_bad_post_process_entries
      stops_at_bad_post_set_env_and_output)

lemma stops_at_bad_post_differ: "stops_at_bad_post (differ a w loaded)"
  unfolding differ_def
  by (auto intro!: stops_at_bad_post_process stops_at_bad_post_quiet quiet_short_circuit
      split: prod.splits)

lemma stops_at_bad_post_run: "stops_at_bad_post (then_do (startup a w) (differ a w))"
  by (intro stops_at_bad_post_then_do stops_at_bad_post_differ stops_at_bad_post_quiet
      quiet_startup) simp_all

text \<open>C5: when the webhook answers a call with a status outside 200 to 299, the run
  ends with \<open>sys.exit\<close> and a message naming the reason and the status, its exit code is
  1, and the call and the printed response are the last two events of the trace: no later
  record is processed or dispatched.\<close>

theorem bad_webhook_answer_is_fatal:
  assumes "HttpPost url body (Inr r) \<in> set (fst (main a w))"
    and "status_code r < 200 \<or> 299 < status_code r"
  shows "snd (main a w)
           = Stopped (SysExit (Msg (''Issue with making POST request: '' @ reason r @ '', ''
                                    @ show_int (status_code r))))
         \<and> exit_code (snd (main a w)) = 1
         \<and> (\<exists>tr. fst (main a w) = tr @ [HttpPost url body (Inr r),
                  Print (''<Response ['' @ show_int (status_code r) @ '']>'')])"
proof -
  let ?m = "then_do (startup a w) (differ a w)"
  have bad: "bad_post (HttpPost url body (Inr r))"
    using assms(2) by auto
  have mem: "HttpPost url body (Inr r) \<in> set (fst ?m)"
    using assms(1) by (simp add: fst_main)
  with bad have "filter bad_post (fst ?m) \<noteq> []"
    unfolding filter_empty_conv by blast
  with stops_at_bad_post_run [of a w] obtain tr url' body' r'
    where tr: "fst ?m = tr @ abort_events url' body' r'"
      and clean: "filter bad_post tr = []"
      and out: "snd ?m = Inl (abort_outcome r')"
    by (auto simp: stops_at_bad_post_def)
  from clean bad have "HttpPost url body (Inr r) \<notin> set tr"
    unfolding filter_empty_conv by blast
  with mem tr have same: "url' = url \<and> body' = body \<and> r' = r"
    by (auto simp: abort_events_def)
  from out same have "snd (main a w) = Stopped (abort_outcome r)"
    by (simp add: snd_main)
  moreover from tr same have "fst (main a w) = tr @ abort_events url body r"
    by (simp add: fst_main)
  ultimately show ?thesis
    by (simp add: abort_outcome_def abort_events_def)
qed


theorem bad_webhook_answer_is_fatal_witness:
  "snd (main deploy_args webhook_down_world)
     = Stopped (SysExit (Msg ''Issue with making POST request: Server Error, 500''))
   \<and> exit_code (snd (main deploy_args webhook_down_world)) = 1
   \<and> length (filter is_http_post (fst (main deploy_args webhook_down_world))) = 2"
proof -
  have mem: "HttpPost ''https://hook''
       (json_dumps_data (''New Job! '' @ icons ! 0 @ [CHR 0x0A] @ ''Title: b'' @ [CHR 0x0A]
                         @ ''u2'' @ [CHR 0x0A]))
       (Inr server_error) \<in> set (fst (main deploy_args webhook_down_world))"
    by code_simp
  have bad: "status_code server_error < 200 \<or> 299 < status_code server_error"
    by (simp add: server_error_def)
  have shown: "show_int (status_code server_error) = ''500''" "reason server_error = ''Server Error''"
    by code_simp+
  have posts: "length (filter is_http_post (fst (main deploy_args webhook_down_world))) = 2"
    by code_simp
  from bad_webhook_answer_is_fatal [OF mem bad] shown posts show ?thesis
    by simp
qed

section \<open>Nothing new\<close>



lemma differ_delta:
  "differ a w (c, m, A, B, ks) =
     (if \<not> test a \<and> delta False (unique a) A B = [] then short_circuit w
      else process a w c m ks (delta (test a) (unique a) A B))"
  by (simp add: differ_def delta_def split: prod.splits)

lemma main_after_startup:
  assumes "startup a w = (tr0, Inr loaded)"
  shows "fst (main a w) = tr0 @ fst (differ a w loaded)"
    and "snd (main a w) =
           (case snd (differ a w loaded) of Inl stop \<Rightarrow> Stopped stop | Inr u \<Rightarrow> Returned)"
  using assms by (simp_all add: fst_main snd_main then_do_Inr)

lemma startup_no_dispatch: "startup a w = (tr0, r) \<Longrightarrow> filter is_dispatch tr0 = []"
  using quiet_startup [of is_dispatch a w] by (simp add: quiet_def)




section \<open>The matrix\<close>

lemma map_of_dict_set: "map_of (dict_set d k s) k' = (if k' = k then Some s else map_of d k')"
  by (induction d k s rule: dict_set.induct) auto

lemma map_of_filter_entry:
  "distinct (map fst e) \<Longrightarrow>
   map_of (filter_entry e filtered) k =
     (case map_of e k of
        None \<Rightarrow> map_of filtered k
      | Some v \<Rightarrow> (case json_dumps v of Inl x \<Rightarrow> map_of filtered k | Inr s \<Rightarrow> Some s))"
proof (induction e filtered rule: filter_entry.induct)
  case (1 filtered)
  show ?case by simp
next
  case (2 k0 v0 items filtered)
  from "2.prems" have fresh: "map_of items k0 = None" and d: "distinct (map fst items)"
    by (auto simp: map_of_eq_None_iff)
  show ?case
  proof (cases "json_dumps v0")
    case (Inl x)
    with "2.IH"(1) [OF Inl d] fresh show ?thesis
      by (simp split: option.splits)
  next
    case (Inr s)
    with "2.IH"(2) [OF Inr d] fresh show ?thesis
      by (simp add: map_of_dict_set split: option.splits sum.splits)
  qed
qed

lemma written_append: "written name (tr @ tr') = written name tr @ written name tr'"
  by (induction name tr rule: written.induct) auto

lemma written_quiet: "filter is_file_append tr = [] \<Longrightarrow> written name tr = []"
  by (induction name tr rule: written.induct) (auto split: if_splits)

lemma then_do_returns:
  assumes "snd (then_do m f) = Inr y"
  obtains x where "snd m = Inr x" and "snd (f x) = Inr y"
    and "fst (then_do m f) = fst m @ fst (f x)"
  using assms by (cases "snd m") (auto simp: snd_then_do fst_then_do)

lemma process_entry_appends:
  "snd (process_entry a w c m wh ks i e mx) = Inr mx' \<Longrightarrow> mx' = mx @ [filter_entry e []]"
  unfolding process_entry_def Let_def
  by (auto simp: snd_then_do split: sum.splits)

lemma process_entries_matrix:
  "snd (process_entries a w c m wh ks i es mx) = Inr mx'
   \<Longrightarrow> mx' = mx @ map (\<lambda>e. filter_entry e []) es"
proof (induction es arbitrary: i mx)
  case Nil
  then show ?case by simp
next
  case (Cons e es)
  from Cons.prems obtain mx1
    where 1: "snd (process_entry a w c m wh ks i e mx) = Inr mx1"
      and 2: "snd (process_entries a w c m wh ks (Suc i) es mx1) = Inr mx'"
    by (auto elim: then_do_returns)
  from process_entry_appends [OF 1] Cons.IH [OF 2] show ?case
    by simp
qed

lemma quiet_file_append_tweet_step: "quiet is_file_append (tweet_step a w c i ch post)"
  by (simp add: tweet_step_def Let_def split: option.splits)

lemma quiet_file_append_toot_step: "quiet is_file_append (toot_step a w c i ch post)"
  by (simp add: toot_step_def Let_def split: option.splits)

lemma quiet_file_append_slack_step: "quiet is_file_append (slack_step a w wh i d)"
  by (simp add: slack_step_def split: option.splits sum.splits)

lemma quiet_file_append_process_entry: "quiet is_file_append (process_entry a w c m wh ks i e mx)"
  unfolding process_entry_def Let_def
  by (auto intro!: quiet_then_do quiet_file_append_tweet_step quiet_file_append_toot_step
      quiet_file_append_slack_step split: sum.splits)

lemma quiet_file_append_process_entries:
  "quiet is_file_append (process_entries a w c m wh ks i es mx)"
  by (induction es arbitrary: i mx) (auto intro!: quiet_then_do quiet_file_append_process_entry)

lemma written_set_env_and_output:
  "snd (set_env_and_output w name value) = Inr u
   \<Longrightarrow> written name' (fst (set_env_and_output w name value))
         = (if name = name' then [value, value] else [])"
  by (auto simp: set_env_and_output_def then_do_Inr then_do_Inl split: option.splits)

lemma snd_short_circuit: "snd (short_circuit w) \<noteq> Inr u"
  by (auto simp: short_circuit_def snd_then_do split: sum.splits)


lemma process_writes:
  assumes "snd (process a w c m ks new) = Inr u"
  shows "written name (fst (process a w c m ks new))
           = (if name = ''fields'' then [json_dumps_keys ks, json_dumps_keys ks] else [])
             @ (if name = ''matrix''
                then [json_dumps_matrix (map (\<lambda>e. filter_entry e []) new),
                      json_dumps_matrix (map (\<lambda>e. filter_entry e []) new)]
                else [])
             @ (if name = ''empty_matrix'' then [''false'', ''false''] else [])"
proof -
  let ?wh = "environ w ''SLACK_WEBHOOK''"
  let ?rest = "\<lambda>matrix. then_do (set_env_and_output w ''fields'' (json_dumps_keys ks))
        (\<lambda>_. then_do (set_env_and_output w ''matrix'' (json_dumps_matrix matrix))
        (\<lambda>_. then_do (set_env_and_output w ''empty_matrix'' ''false'')
        (\<lambda>_. ([Print (''matrix: '' @ json_dumps_matrix matrix), PrintGroup new], Inr ()))))"
  from assms have p: "process a w c m ks new = then_do (process_entries a w c m ?wh ks 0 new []) ?rest"
    by (auto simp: process_def Let_def split: if_splits)
  with assms obtain mx where
    1: "snd (process_entries a w c m ?wh ks 0 new []) = Inr mx" and
    2: "snd (?rest mx) = Inr u" and
    3: "fst (process a w c m ks new) = fst (process_entries a w c m ?wh ks 0 new []) @ fst (?rest mx)"
    by (auto elim: then_do_returns)
  from process_entries_matrix [OF 1] have mx: "mx = map (\<lambda>e. filter_entry e []) new"
    by simp
  from 2 obtain u1 where
    f: "snd (set_env_and_output w ''fields'' (json_dumps_keys ks)) = Inr u1" and
    4: "snd (then_do (set_env_and_output w ''matrix'' (json_dumps_matrix mx))
        (\<lambda>_. then_do (set_env_and_output w ''empty_matrix'' ''false'')
        (\<lambda>_. ([Print (''matrix: '' @ json_dumps_matrix mx), PrintGroup new], Inr ())))) = Inr u" and
    5: "fst (?rest mx) = fst (set_env_and_output w ''fields'' (json_dumps_keys ks))
        @ fst (then_do (set_env_and_output w ''matrix'' (json_dumps_matrix mx))
        (\<lambda>_. then_do (set_env_and_output w ''empty_matrix'' ''false'')
        (\<lambda>_. ([Print (''matrix: '' @ json_dumps_matrix mx), PrintGroup new], Inr ()))))"
    by (auto elim: then_do_returns)
  from 4 obtain u2 where
    g: "snd (set_env_and_output w ''matrix'' (json_dumps_matrix mx)) = Inr u2" and
    6: "snd (then_do (set_env_and_output w ''empty_matrix'' ''false'')
        (\<lambda>_. ([Print (''matrix: '' @ json_dumps_matrix mx), PrintGroup new], Inr ()))) = Inr u" and
    7: "fst (then_do (set_env_and_output w ''matrix'' (json_dumps_matrix mx))
        (\<lambda>_. then_do (set_env_and_output w ''empty_matrix'' ''false'')
        (\<lambda>_. ([Print (''matrix: '' @ json_dumps_matrix mx), PrintGroup new], Inr ()))))
        = fst (set_env_and_output w ''matrix'' (json_dumps_matrix mx))
          @ fst (then_do (set_env_and_output w ''empty_matrix'' ''false'')
             (\<lambda>_. ([Print (''matrix: '' @ json_dumps_matrix mx), PrintGroup new], Inr ())))"
    by (auto elim: then_do_returns)
  from 6 obtain u3 where
    h: "snd (set_env_and_output w ''empty_matrix'' ''false'') = Inr u3" and
    8: "fst (then_do (set_env_and_output w ''empty_matrix'' ''false'')
             (\<lambda>_. ([Print (''matrix: '' @ json_dumps_matrix mx), PrintGroup new], Inr ())))
        = fst (set_env_and_output w ''empty_matrix'' ''false'')
          @ [Print (''matrix: '' @ json_dumps_matrix mx), PrintGroup new]"
    by (auto elim: then_do_returns)
  have "written name (fst (process_entries a w c m ?wh ks 0 new [])) = []"
    using quiet_file_append_process_entries [of a w c m ?wh ks 0 new "[]"]
    by (simp add: quiet_def written_quiet)
  then have "written name (fst (process a w c m ks new))
      = (if name = ''fields'' then [json_dumps_keys ks, json_dumps_keys ks] else [])
        @ (if name = ''matrix'' then [json_dumps_matrix mx, json_dumps_matrix mx] else [])
        @ (if name = ''empty_matrix'' then [''false'', ''false''] else [])"
    unfolding 3 5 7 8
    by (simp add: written_append written_set_env_and_output [OF f]
        written_set_env_and_output [OF g] written_set_env_and_output [OF h])
  with mx show ?thesis
    by simp
qed

lemma returned_run_processes:
  assumes "startup a w = (tr0, Inr (c, m, A, B, ks))" and "snd (main a w) = Returned"
  shows "written name (fst (main a w))
           = written name (fst (process a w c m ks (delta (test a) (unique a) A B)))"
    and "\<exists>u. snd (process a w c m ks (delta (test a) (unique a) A B)) = Inr u"
    and "\<not> test a \<Longrightarrow> delta (test a) (unique a) A B \<noteq> []"
proof -
  let ?D = "delta (test a) (unique a) A B"
  from assms(2) main_after_startup(2) [OF assms(1)]
  obtain u where u: "snd (differ a w (c, m, A, B, ks)) = Inr u"
    by (auto split: sum.splits)
  then have d: "differ a w (c, m, A, B, ks) = process a w c m ks ?D"
    using snd_short_circuit [of w u] by (auto simp: differ_delta split: if_splits)
  from u d show "\<exists>u. snd (process a w c m ks ?D) = Inr u"
    by auto
  have "written name tr0 = []"
    using quiet_startup [of is_file_append a w] assms(1) by (simp add: quiet_def written_quiet)
  with d main_after_startup(1) [OF assms(1)]
  show "written name (fst (main a w)) = written name (fst (process a w c m ks ?D))"
    by (simp add: written_append)
  show "\<not> test a \<Longrightarrow> ?D \<noteq> []"
    using u snd_short_circuit [of w u] by (auto simp: differ_delta split: if_splits)
qed

text \<open>C9, amended: in a run that gets past its startup and returns, the value written under
  \<open>matrix\<close> (once to each output file) is the JSON text of one dict per Delta record, in
  the Delta's order: the record's \<open>filtered\<close> dict. For a Delta record \<open>e\<close> (a dict: its
  keys are distinct), that dict maps a field to the JSON text of its value when the value
  is serializable, and has no entry for a field whose value is not: exactly the
  unserializable fields are dropped.\<close>

theorem unserializable_field_dropped:
  assumes "startup a w = (tr0, Inr (c, m, A, B, ks))"
    and "snd (main a w) = Returned"
    and "e \<in> set (delta (test a) (unique a) A B)"
    and "distinct (map fst e)"
  shows "written ''matrix'' (fst (main a w))
           = [json_dumps_matrix (map (\<lambda>e. filter_entry e []) (delta (test a) (unique a) A B)),
              json_dumps_matrix (map (\<lambda>e. filter_entry e []) (delta (test a) (unique a) A B))]
         \<and> filter_entry e [] \<in> set (map (\<lambda>e. filter_entry e []) (delta (test a) (unique a) A B))
         \<and> map_of (filter_entry e []) k
             = (case map_of e k of
                  None \<Rightarrow> None
                | Some v \<Rightarrow> (case json_dumps v of Inl x \<Rightarrow> None | Inr s \<Rightarrow> Some s))"
proof -
  let ?D = "delta (test a) (unique a) A B"
  from returned_run_processes(2) [OF assms(1,2)] obtain u
    where u: "snd (process a w c m ks ?D) = Inr u" ..
  have "written ''matrix'' (fst (main a w))
           = [json_dumps_matrix (map (\<lambda>e. filter_entry e []) ?D),
              json_dumps_matrix (map (\<lambda>e. filter_entry e []) ?D)]"
    by (simp add: returned_run_processes(1) [OF assms(1,2)] process_writes [OF u])
  with assms(3) map_of_filter_entry [OF assms(4), of "[]" k] show ?thesis
    by (simp split: option.splits sum.splits)
qed

theorem unserializable_field_dropped_witness:
  "written ''matrix'' (fst (main sample_args (sample_world [] [dated_job])))
     = [json_dumps_matrix [[(''title'', json_string ''a''), (''url'', json_string ''u1'')]],
        json_dumps_matrix [[(''title'', json_string ''a''), (''url'', json_string ''u1'')]]]
   \<and> map_of (filter_entry dated_job []) ''posted'' = None
   \<and> map_of (filter_entry dated_job []) ''title'' = Some (json_string ''a'')"
proof -
  let ?w = "sample_world [] [dated_job]"
  have s: "startup sample_args ?w =
      ([ReadYaml ''old.yaml'', ReadYaml ''new.yaml''],
       Inr (None, None, [], [dated_job], [''title'', ''url'']))"
    by code_simp
  have r: "snd (main sample_args ?w) = Returned"
    by code_simp
  have dl: "delta (test sample_args) (unique sample_args) [] [dated_job] = [dated_job]"
    by code_simp
  have mem: "dated_job \<in> set (delta (test sample_args) (unique sample_args) [] [dated_job])"
    by (simp add: dl)
  have d: "distinct (map fst dated_job)"
    by code_simp
  have fe: "filter_entry dated_job [] = [(''title'', json_string ''a''), (''url'', json_string ''u1'')]"
    by code_simp
  have look: "map_of dated_job ''posted'' = Some (PyDate 2024 1 5)"
    "map_of dated_job ''title'' = Some (PyStr ''a'')"
    by code_simp+
  from unserializable_field_dropped [OF s r mem d, of "''posted''"]
    unserializable_field_dropped [OF s r mem d, of "''title''"]
  show ?thesis
    by (simp add: dl fe look)
qed

text \<open>C9, as stated, fails: when the field that holds the date is one of the keys to
  display, \<open>prepare_post\<close> raises on the record (a text and a date do not concatenate);
  the run ends with the uncaught exception and writes no matrix, so the record appears in
  no output.\<close>

theorem unserializable_field_displayed_counterexample:
  "delta False ''url'' [] [dated_job] = [dated_job]
   \<and> map_of dated_job ''posted'' = Some (PyDate 2024 1 5)
   \<and> json_dumps (PyDate 2024 1 5) = Inl TypeError
   \<and> main posted_args (sample_world [] [dated_job])
       = ([ReadYaml ''old.yaml'', ReadYaml ''new.yaml''], Stopped (Uncaught TypeError))
   \<and> written ''matrix'' (fst (main posted_args (sample_world [] [dated_job]))) = []"
  by code_simp

section \<open>Credentials\<close>

lemma read_envars_missing:
  "list_ex (\<lambda>k. \<not> is_set (environ w k)) vars \<Longrightarrow> \<exists>k. read_envars w vars envars = Inl k"
  by (induction vars arbitrary: envars) (auto simp: is_set_def split: option.splits)

lemma check_exists_stop:
  "snd (check_exists w fs) = Inl s \<Longrightarrow> exit_code (Stopped s) = 1"
  by (induction w fs rule: check_exists.induct) (auto split: if_splits)

lemma check_exists_cases:
  obtains s where "check_exists w fs = ([], Inl s)" and "exit_code (Stopped s) = 1"
  | "check_exists w fs = ([], Inr ())"
  using check_exists_stop [of w fs] fst_check_exists [of w fs]
  by (cases "check_exists w fs"; cases "snd (check_exists w fs)") auto

lemma get_twitter_client_cases:
  obtains k where "get_twitter_client w = ([], Inl (SysExit (Msg k)))"
  | cl where "get_twitter_client w = ([], Inr cl)"
  by (cases "read_envars w twitter_envars []") (simp_all add: get_twitter_client_def)

lemma twitter_missing_stops:
  assumes "is_set (command a)" and "deploy_twitter a"
    and "list_ex (\<lambda>k. \<not> is_set (environ w k)) twitter_envars"
  shows "\<exists>s. startup a w = ([], Inl s) \<and> exit_code (Stopped s) = 1"
proof -
  from read_envars_missing [OF assms(3), of "[]"] obtain k
    where "read_envars w twitter_envars [] = Inl k"
    by blast
  then have "get_twitter_client w =
      ([], Inl (SysExit (Msg (k @ '' is not set, and required when twitter deploy is true!''))))"
    by (simp add: get_twitter_client_def)
  with assms(1,2) show ?thesis
    by (cases rule: check_exists_cases [of w "[original a, updated a]"])
       (simp_all add: startup_def then_do_Inl then_do_Inr)
qed

lemma mastodon_missing_stops:
  assumes "is_set (command a)" and "deploy_mastodon a"
    and "list_ex (\<lambda>k. \<not> is_set (environ w k)) mastodon_envars"
  shows "\<exists>s. startup a w = ([], Inl s) \<and> exit_code (Stopped s) = 1"
proof -
  from read_envars_missing [OF assms(3), of "[]"] obtain k
    where "read_envars w mastodon_envars [] = Inl k"
    by blast
  then have "get_mastodon_client w =
      ([], Inl (SysExit (Msg (k @ '' is not set, and required when mastodon deploy is true!''))))"
    by (simp add: get_mastodon_client_def)
  with assms(1,2) show ?thesis
    by (cases rule: check_exists_cases [of w "[original a, updated a]"];
        cases rule: get_twitter_client_cases [of w])
       (simp_all add: startup_def then_do_Inl then_do_Inr)
qed

lemma main_startup_stops:
  "startup a w = (tr, Inl s) \<Longrightarrow> main a w = (tr, Stopped s)"
  by (simp add: main_def then_do_Inl)

text \<open>C7, amended: when a command is given, (1) with the Twitter flag set and one of the
  four Twitter variables unset or empty, and (2) with the Mastodon flag set and one of the
  two Mastodon variables unset or empty, the run stops with exit code 1 and an empty
  trace: before any file is read, diffed or dispatched. (3) With the chat flag set and the
  webhook URL unset or empty, a run that gets past its startup stops with the message
  about \<open>SLACK_WEBHOOK\<close> after the differ and before any dispatch, provided test mode is
  on or the Delta is not empty.\<close>

theorem missing_credentials:
  assumes "is_set (command a)"
  shows "(deploy_twitter a \<and> list_ex (\<lambda>k. \<not> is_set (environ w k)) twitter_envars
            \<longrightarrow> fst (main a w) = [] \<and> exit_code (snd (main a w)) = 1)
       \<and> (deploy_mastodon a \<and> list_ex (\<lambda>k. \<not> is_set (environ w k)) mastodon_envars
            \<longrightarrow> fst (main a w) = [] \<and> exit_code (snd (main a w)) = 1)
       \<and> (deploy a \<and> \<not> is_set (environ w ''SLACK_WEBHOOK'')
            \<and> startup a w = (tr0, Inr (c, m, A, B, ks))
            \<and> (test a \<or> delta False (unique a) A B \<noteq> [])
            \<longrightarrow> main a w = (tr0, Stopped (SysExit (Msg ''Cannot find SLACK_WEBHOOK in environment.'')))
                \<and> filter is_dispatch tr0 = [])"
proof (intro conjI impI)
  assume "deploy_twitter a \<and> list_ex (\<lambda>k. \<not> is_set (environ w k)) twitter_envars"
  with twitter_missing_stops [OF assms, of w] obtain s
    where "startup a w = ([], Inl s)" "exit_code (Stopped s) = 1"
    by blast
  then show "fst (main a w) = []" "exit_code (snd (main a w)) = 1"
    by (simp_all add: main_startup_stops)
next
  assume "deploy_mastodon a \<and> list_ex (\<lambda>k. \<not> is_set (environ w k)) mastodon_envars"
  with mastodon_missing_stops [OF assms, of w] obtain s
    where "startup a w = ([], Inl s)" "exit_code (Stopped s) = 1"
    by blast
  then show "fst (main a w) = []" "exit_code (snd (main a w)) = 1"
    by (simp_all add: main_startup_stops)
next
  assume h: "deploy a \<and> \<not> is_set (environ w ''SLACK_WEBHOOK'')
            \<and> startup a w = (tr0, Inr (c, m, A, B, ks))
            \<and> (test a \<or> delta False (unique a) A B \<noteq> [])"
  then have "differ a w (c, m, A, B, ks)
      = ([], Inl (SysExit (Msg ''Cannot find SLACK_WEBHOOK in environment.'')))"
    by (auto simp: differ_delta process_def)
  with h main_after_startup [of a w tr0 "(c, m, A, B, ks)"]
  show "main a w = (tr0, Stopped (SysExit (Msg ''Cannot find SLACK_WEBHOOK in environment.'')))"
    by (simp add: prod_eq_iff)
  from h startup_no_dispatch show "filter is_dispatch tr0 = []"
    by blast
qed


text \<open>C7, as stated, fails for the chat channel: with the chat flag set, no webhook URL
  in the environment and nothing new, the run does not fail; it exits with code 0.\<close>

theorem missing_webhook_counterexample:
  "is_set (command deploy_args) \<and> deploy deploy_args
   \<and> \<not> is_set (environ (no_webhook_world [job ''a'' ''u1''] [job ''a'' ''u1'']) ''SLACK_WEBHOOK'')
   \<and> snd (main deploy_args (no_webhook_world [job ''a'' ''u1''] [job ''a'' ''u1'']))
       = Stopped (SysExit (Code 0))
   \<and> exit_code (snd (main deploy_args (no_webhook_world [job ''a'' ''u1''] [job ''a'' ''u1'']))) = 0"
  by code_simp

theorem missing_credentials_witness:
  "fst (main twitter_args
          ((sample_world [] two_jobs)\<lparr>environ := environ_without ''TWITTER_API_SECRET''\<rparr>)) = []
   \<and> exit_code (snd (main twitter_args
          ((sample_world [] two_jobs)\<lparr>environ := environ_without ''TWITTER_API_SECRET''\<rparr>))) = 1
   \<and> fst (main mastodon_args
          ((sample_world [] two_jobs)\<lparr>environ := environ_without ''MASTODON_API_BASE_URL''\<rparr>)) = []
   \<and> exit_code (snd (main mastodon_args
          ((sample_world [] two_jobs)\<lparr>environ := environ_without ''MASTODON_API_BASE_URL''\<rparr>))) = 1
   \<and> main deploy_args (no_webhook_world [] two_jobs)
       = ([ReadYaml ''old.yaml'', ReadYaml ''new.yaml''],
          Stopped (SysExit (Msg ''Cannot find SLACK_WEBHOOK in environment.'')))"
proof -
  let ?tw = "(sample_world [] two_jobs)\<lparr>environ := environ_without ''TWITTER_API_SECRET''\<rparr>"
  let ?mw = "(sample_world [] two_jobs)\<lparr>environ := environ_without ''MASTODON_API_BASE_URL''\<rparr>"
  let ?sw = "no_webhook_world [] two_jobs"
  have c: "is_set (command twitter_args)" "is_set (command mastodon_args)"
    "is_set (command deploy_args)"
    by code_simp+
  have t: "deploy_twitter twitter_args
      \<and> list_ex (\<lambda>k. \<not> is_set (environ ?tw k)) twitter_envars"
    by code_simp
  have m: "deploy_mastodon mastodon_args
      \<and> list_ex (\<lambda>k. \<not> is_set (environ ?mw k)) mastodon_envars"
    by code_simp
  have s: "deploy deploy_args \<and> \<not> is_set (environ ?sw ''SLACK_WEBHOOK'')
      \<and> startup deploy_args ?sw
          = ([ReadYaml ''old.yaml'', ReadYaml ''new.yaml''],
             Inr (None, None, [], two_jobs, [''title'', ''url'']))
      \<and> (test deploy_args \<or> delta False (unique deploy_args) [] two_jobs \<noteq> [])"
    by code_simp
  from missing_credentials [OF c(1), of ?tw] t
    missing_credentials [OF c(2), of ?mw] m
    missing_credentials [OF c(3), of ?sw "[ReadYaml ''old.yaml'', ReadYaml ''new.yaml'']"
      None None "[]" two_jobs "[''title'', ''url'']"] s
  show ?thesis
    by blast
qed

section \<open>Failures of the social channels\<close>

text \<open>The tweet step never stops the run, whatever \<open>create_tweet\<close> does.\<close>

lemma snd_tweet_step: "snd (tweet_step a w c i ch post) = Inr ()"
  by (simp add: tweet_step_def Let_def split: option.splits)

text \<open>C4, on the code: with the Mastodon flag set and \<open>toot\<close> raising on the first of two
  new records, the exception is not caught. The run ends with the uncaught exception, exit
  code 1, right after the call: the second record is not processed and no output is
  written.\<close>

theorem mastodon_failure_stops_run:
  "main mastodon_args mastodon_down_world =
     ([ReadYaml ''old.yaml'', ReadYaml ''new.yaml'',
       Print (''New Job! '' @ icons ! 0 @ [CHR 0x0A] @ ''Title: a'' @ [CHR 0x0A] @ ''u1'' @ [CHR 0x0A]),
       Toot (''New #RSEng Job! '' @ icons ! 0 @ '': Title: a'' @ [CHR 0x0A] @ ''u1'' @ [CHR 0x0A])
         (Some (Raised ''MastodonNetworkError''))],
      Stopped (Uncaught (Raised ''MastodonNetworkError'')))
   \<and> exit_code (snd (main mastodon_args mastodon_down_world)) = 1"
  by code_simp

text \<open>The sibling path: an exception of \<open>create_tweet\<close> on both records is caught, both
  records are processed and the run returns.\<close>

lemma twitter_failure_is_caught:
  "snd (main twitter_args twitter_down_world) = Returned
   \<and> exit_code (snd (main twitter_args twitter_down_world)) = 0
   \<and> length (filter is_dispatch (fst (main twitter_args twitter_down_world))) = 2"
  by code_simp

section \<open>The emptiness flag\<close>

lemma join_Cons_nonempty: "x \<noteq> [] \<Longrightarrow> join sep (x # xs) \<noteq> []"
  by (cases xs) auto

lemma json_dumps_matrix_nonempty: "mx \<noteq> [] \<Longrightarrow> json_dumps_matrix mx \<noteq> ''[]''"
proof (cases mx)
  case Nil
  then show "mx \<noteq> [] \<Longrightarrow> ?thesis" by simp
next
  case (Cons d ds)
  have "json_dict d \<noteq> []"
    by (simp add: json_dict_def)
  then have "join '', '' (json_dict d # map json_dict ds) \<noteq> []"
    by (rule join_Cons_nonempty)
  with Cons show ?thesis
    by (simp add: json_dumps_matrix_def json_list_def)
qed

text \<open>Outside test mode the flag is right: a run that returns has written a matrix that is
  not empty, and \<open>empty_matrix=false\<close>.\<close>

lemma flag_right_without_test_mode:
  assumes "startup a w = (tr0, Inr (c, m, A, B, ks))" and "snd (main a w) = Returned"
    and "\<not> test a"
  shows "written ''empty_matrix'' (fst (main a w)) = [''false'', ''false'']
         \<and> (\<exists>M. written ''matrix'' (fst (main a w)) = [M, M] \<and> M \<noteq> ''[]'')"
proof -
  let ?D = "delta (test a) (unique a) A B"
  from returned_run_processes(2) [OF assms(1,2)] obtain u
    where u: "snd (process a w c m ks ?D) = Inr u" ..
  from returned_run_processes(3) [OF assms(1,2,3)]
  have "json_dumps_matrix (map (\<lambda>e. filter_entry e []) ?D) \<noteq> ''[]''"
    by (intro json_dumps_matrix_nonempty) simp
  then show ?thesis
    by (simp add: returned_run_processes(1) [OF assms(1,2)] process_writes [OF u])
qed

text \<open>C8, on the code: in test mode, with an updated snapshot whose only record lacks the
  uniqueness field, the Delta is empty and the run returns; it writes \<open>matrix=[]\<close> and
  \<open>empty_matrix=false\<close>.\<close>

theorem empty_matrix_flag_in_test_mode:
  "snd (main test_args (sample_world [job ''a'' ''u1''] [[(''title'', PyStr ''x'')]])) = Returned
   \<and> written ''matrix''
         (fst (main test_args (sample_world [job ''a'' ''u1''] [[(''title'', PyStr ''x'')]])))
       = [''[]'', ''[]'']
   \<and> written ''empty_matrix''
         (fst (main test_args (sample_world [job ''a'' ''u1''] [[(''title'', PyStr ''x'')]])))
       = [''false'', ''false'']"
  by code_simp

text \<open>The same outputs in test mode when the only record of the updated snapshot is new.\<close>

lemma empty_matrix_flag_test_mode_new_job:
  "written ''matrix'' (fst (main test_args (sample_world [] [job ''a'' ''u1'']))) = [''[]'', ''[]'']
   \<and> written ''empty_matrix'' (fst (main test_args (sample_world [] [job ''a'' ''u1''])))
       = [''false'', ''false'']"
  by code_simp

end
